theory Spec2Isabelle
  imports Main "HOL-Library.Sublist"
begin

section \<open>Python values, exceptions and strings\<close>

text \<open>
  The audit suite \<^verbatim>\<open>python_audits.py\<close> inspects files, JSON artifacts and HTTP endpoints
  and turns what it finds into \<^verbatim>\<open>AuditResult\<close> records. This theory embeds its data
  model, its six check runners, the recommendation engine and the aggregation of
  \<^verbatim>\<open>run_full_audit\<close>, and proves properties of them.

  Text is a list of 8-bit characters: a Python \<^verbatim>\<open>str\<close> whose code points lie below 256.
  On such text \<open>isspace\<close> and \<open>py_lower\<close> below agree with \<^verbatim>\<open>str.isspace\<close> and
  \<^verbatim>\<open>str.lower\<close>. A float is carried as its \<^verbatim>\<open>repr\<close>, which identifies it. A
  \<^verbatim>\<open>dict\<close> is an association list in insertion order.
\<close>

datatype pyval =
    PNone
  | PBool bool
  | PInt int
  | PFloat string
  | PStr string
  | PList "pyval list"
  | PDict "(string \<times> pyval) list"

text \<open>
  The exceptions (all subclasses of \<^verbatim>\<open>Exception\<close>) that the calls of the suite can
  raise. \<open>HTTPError\<close> carries the HTTP status code and reason of an error response;
  the others carry the text that \<^verbatim>\<open>str(e)\<close> shows.
\<close>

datatype exn =
    AttributeError string
  | TypeError string
  | ValueError string
  | JSONDecodeError string
  | UnicodeDecodeError string
  | OSError string
  | URLError string
  | HTTPError nat string

text \<open>\<^verbatim>\<open>isinstance(e, urllib.error.URLError)\<close>: \<^verbatim>\<open>HTTPError\<close> is a subclass of \<^verbatim>\<open>URLError\<close>.\<close>

fun is_URLError :: "exn \<Rightarrow> bool" where
  "is_URLError (URLError _) = True"
| "is_URLError (HTTPError _ _) = True"
| "is_URLError _ = False"

text \<open>\<^verbatim>\<open>isinstance(e, json.JSONDecodeError)\<close>.\<close>

fun is_JSONDecodeError :: "exn \<Rightarrow> bool" where
  "is_JSONDecodeError (JSONDecodeError _) = True"
| "is_JSONDecodeError _ = False"

abbreviation sq :: string where
  "sq \<equiv> [CHR 0x27]"

definition digit_char :: "nat \<Rightarrow> char" where
  "digit_char d = ''0123456789'' ! (d mod 10)"

function show_nat :: "nat \<Rightarrow> string" where
  "show_nat n = (if n < 10 then [digit_char n] else show_nat (n div 10) @ [digit_char (n mod 10)])"
  by pat_completeness auto
termination
  by (relation "measure id") auto

declare show_nat.simps [simp del]

definition show_int :: "int \<Rightarrow> string" where
  "show_int i = (if i < 0 then CHR ''-'' # show_nat (nat (- i)) else show_nat (nat i))"

definition show_bool :: "bool \<Rightarrow> string" where
  "show_bool b = (if b then ''True'' else ''False'')"

text \<open>\<^verbatim>\<open>str(e)\<close> of an exception.\<close>

fun exn_str :: "exn \<Rightarrow> string" where
  "exn_str (AttributeError s) = s"
| "exn_str (TypeError s) = s"
| "exn_str (ValueError s) = s"
| "exn_str (JSONDecodeError s) = s"
| "exn_str (UnicodeDecodeError s) = s"
| "exn_str (OSError s) = s"
| "exn_str (URLError s) = ''<urlopen error '' @ s @ ''>''"
| "exn_str (HTTPError c s) = ''HTTP Error '' @ show_nat c @ '': '' @ s"

text \<open>\<^verbatim>\<open>needle in hay\<close> on strings: \<open>needle\<close> occurs as a contiguous substring.\<close>

fun str_in :: "string \<Rightarrow> string \<Rightarrow> bool" where
  "str_in s [] = (s = [])"
| "str_in s (c # cs) = (prefix s (c # cs) \<or> str_in s cs)"

definition isspace :: "char \<Rightarrow> bool" where
  "isspace c = (let n = (of_char c :: nat) in
     (9 \<le> n \<and> n \<le> 13) \<or> (28 \<le> n \<and> n \<le> 32) \<or> n = 133 \<or> n = 160)"

text \<open>
  \<^verbatim>\<open>content.split()\<close>: the maximal runs of non-whitespace characters. \<open>cur\<close> is the
  word being read.
\<close>

fun split_from :: "string \<Rightarrow> string \<Rightarrow> string list" where
  "split_from cur [] = (if cur = [] then [] else [cur])"
| "split_from cur (c # cs) =
     (if isspace c then (if cur = [] then split_from [] cs else cur # split_from [] cs)
      else split_from (cur @ [c]) cs)"

definition py_split :: "string \<Rightarrow> string list" where
  "py_split s = split_from [] s"

definition lower_char :: "char \<Rightarrow> char" where
  "lower_char c = (let n = (of_char c :: nat) in
     if (65 \<le> n \<and> n \<le> 90) \<or> (192 \<le> n \<and> n \<le> 222 \<and> n \<noteq> 215)
     then char_of (n + 32) else c)"

definition py_lower :: "string \<Rightarrow> string" where
  "py_lower s = map lower_char s"

text \<open>\<^verbatim>\<open>sep.join(xs)\<close>.\<close>

fun join :: "string \<Rightarrow> string list \<Rightarrow> string" where
  "join sep [] = []"
| "join sep [x] = x"
| "join sep (x # y # ys) = x @ sep @ join sep (y # ys)"

subsection \<open>Rendering a value in an f-string\<close>

definition hex_char :: "nat \<Rightarrow> char" where
  "hex_char d = ''0123456789abcdef'' ! (d mod 16)"

definition printable :: "char \<Rightarrow> bool" where
  "printable c = (let n = (of_char c :: nat) in
     (32 \<le> n \<and> n \<le> 126) \<or> (161 \<le> n \<and> n \<noteq> 173))"

definition escape_char :: "char \<Rightarrow> char \<Rightarrow> string" where
  "escape_char q c =
     (if c = CHR 0x5C then [CHR 0x5C, CHR 0x5C]
      else if c = q then [CHR 0x5C, q]
      else if c = CHR 0x0A then [CHR 0x5C, CHR ''n'']
      else if c = CHR 0x0D then [CHR 0x5C, CHR ''r'']
      else if c = CHR 0x09 then [CHR 0x5C, CHR ''t'']
      else if printable c then [c]
      else [CHR 0x5C, CHR ''x'', hex_char (of_char c div 16), hex_char (of_char c mod 16)])"

text \<open>\<^verbatim>\<open>repr(s)\<close> of a string: single quotes unless it holds one and no double quote.\<close>

definition str_repr :: "string \<Rightarrow> string" where
  "str_repr s =
     (let q = (if CHR 0x27 \<in> set s \<and> CHR 0x22 \<notin> set s then CHR 0x22 else CHR 0x27)
      in q # concat (map (escape_char q) s) @ [q])"

primrec py_repr :: "pyval \<Rightarrow> string" where
  "py_repr PNone = ''None''"
| "py_repr (PBool b) = show_bool b"
| "py_repr (PInt i) = show_int i"
| "py_repr (PFloat r) = r"
| "py_repr (PStr s) = str_repr s"
| "py_repr (PList xs) = ''['' @ join '', '' (map py_repr xs) @ '']''"
| "py_repr (PDict kvs) =
     ''{'' @ join '', '' (map (\<lambda>kv. str_repr (fst kv) @ '': '' @ snd kv)
                          (map (map_prod id py_repr) kvs)) @ ''}''"

text \<open>\<^verbatim>\<open>str(v)\<close>, which an f-string applies to a value it embeds.\<close>

definition py_str :: "pyval \<Rightarrow> string" where
  "py_str v = (case v of PStr s \<Rightarrow> s | _ \<Rightarrow> py_repr v)"

subsection \<open>Operations on values\<close>

text \<open>\<^verbatim>\<open>type(v).__name__\<close>, used in the text of the errors below.\<close>

fun type_name :: "pyval \<Rightarrow> string" where
  "type_name PNone = ''NoneType''"
| "type_name (PBool _) = ''bool''"
| "type_name (PInt _) = ''int''"
| "type_name (PFloat _) = ''float''"
| "type_name (PStr _) = ''str''"
| "type_name (PList _) = ''list''"
| "type_name (PDict _) = ''dict''"

text \<open>\<^verbatim>\<open>d.get(k, default)\<close> on a dict.\<close>

definition dict_get :: "(string \<times> pyval) list \<Rightarrow> string \<Rightarrow> pyval \<Rightarrow> pyval" where
  "dict_get d k dflt = (case map_of d k of Some v \<Rightarrow> v | None \<Rightarrow> dflt)"

text \<open>
  \<^verbatim>\<open>data.get(k, default)\<close> on any value: only a dict has the method; on every other
  value the attribute lookup raises \<^verbatim>\<open>AttributeError\<close>.
\<close>

fun py_get :: "pyval \<Rightarrow> string \<Rightarrow> pyval \<Rightarrow> exn + pyval" where
  "py_get (PDict d) k dflt = Inr (dict_get d k dflt)"
| "py_get v k dflt =
     Inl (AttributeError (sq @ type_name v @ sq @ '' object has no attribute '' @ sq @ ''get'' @ sq))"

text \<open>\<^verbatim>\<open>len(v)\<close>: defined on strings, lists and dicts; \<^verbatim>\<open>TypeError\<close> otherwise.\<close>

fun py_len :: "pyval \<Rightarrow> exn + nat" where
  "py_len (PStr s) = Inr (length s)"
| "py_len (PList xs) = Inr (length xs)"
| "py_len (PDict d) = Inr (length d)"
| "py_len v = Inl (TypeError (''object of type '' @ sq @ type_name v @ sq @ '' has no len()''))"

section \<open>The data model\<close>

text \<open>
  \<^verbatim>\<open>AuditResult\<close>: the status is a string, as in the source; that it is one of the four
  expected words is a property of the runners, proved below, not of the type.
\<close>

record AuditResult =
  name :: string
  status :: string
  message :: string
  details :: "(string \<times> pyval) list option"
  timestamp :: string

record AuditReport =
  title :: string
  report_timestamp :: string
  summary :: "(string \<times> pyval) list"
  file_audit :: "AuditResult list"
  endpoint_audit :: "AuditResult list"
  data_audit :: "AuditResult list"
  content_audit :: "AuditResult list"
  security_audit :: "AuditResult list"
  code_audit :: "AuditResult list"
  recommendations :: "string list"

section \<open>The recommendation engine\<close>

definition default_recommendations :: "string list" where
  "default_recommendations =
     [''Review generated LinkedIn content before manual posting'',
      ''Monitor endpoint response times in production'',
      ''Keep dependencies updated: npm update'',
      ''Test automation flow weekly to ensure reliability'']"

definition generate_recommendations :: "AuditResult list \<Rightarrow> string list" where
  "generate_recommendations all_results =
     (let fails = filter (\<lambda>r. status r = ''fail'') all_results;
          warns = filter (\<lambda>r. status r = ''warn'') all_results
      in (if list_ex (\<lambda>r. str_in ''cors'' (py_lower (name r))) warns
          then [''Consider restricting CORS to specific domains in production''] else [])
       @ (if list_ex (\<lambda>r. str_in ''env'' (py_lower (name r))) (warns @ fails)
          then [''Ensure .env file is properly configured with all required secrets''] else [])
       @ (if list_ex (\<lambda>r. str_in ''weekly'' (py_lower (name r)) \<and> status r \<noteq> ''pass'') all_results
          then [''Run daily uploads for at least 3 days before generating weekly LinkedIn content'']
          else [])
       @ (if list_ex (\<lambda>r. str_in ''content'' (py_lower (name r)) \<and> str_in ''0 files'' (message r))
               all_results
          then [''Generate LinkedIn content using: node linkedin-content-creator.cjs create'']
          else [])
       @ (if list_ex (\<lambda>r. str_in ''backup'' (py_lower (name r))) all_results
          then [''Set up automated backups of the data directory''] else [])
       @ (if list_ex (\<lambda>r. str_in ''endpoint'' (py_lower (name r)) \<and> status r = ''fail'') all_results
          then [''Ensure the webhook server is running: npm start''] else [])
       @ default_recommendations)"


section \<open>The world the suite observes\<close>

text \<open>
  A path is the list of its components below the directory of the script
  (\<^verbatim>\<open>BASE_DIR = Path(__file__).parent\<close>), so \<open>BASE_DIR\<close> is the empty path.
\<close>

type_synonym path = "string list"

definition BASE_DIR :: path where
  "BASE_DIR = []"

definition DATA_DIR :: path where
  "DATA_DIR = BASE_DIR @ [''data'']"

definition CONTENT_DIR :: path where
  "CONTENT_DIR = BASE_DIR @ [''content'']"

text \<open>\<^verbatim>\<open>str(path)\<close> and \<^verbatim>\<open>path.name\<close>.\<close>

definition path_str :: "path \<Rightarrow> string" where
  "path_str p = join ''/'' p"

definition path_name :: "path \<Rightarrow> string" where
  "path_name p = (if p = [] then [] else last p)"

text \<open>
  Everything outside the suite is an observation of the world: what the operating system
  and the libraries answer to the calls the suite makes.
  \<^item> \<open>path_exists\<close>, \<open>is_dir\<close>, \<open>st_size\<close>, \<open>st_mtime\<close>: \<^verbatim>\<open>Path.exists\<close>,
    \<^verbatim>\<open>Path.is_dir\<close> and the two fields of \<^verbatim>\<open>Path.stat\<close>. Only the order of
    modification times is used, so they are integers here.
  \<^item> \<open>iterdir\<close>: the names of the entries of a directory, in the order the system lists
    them (empty for a path that is no directory).
  \<^item> \<open>read_text\<close>: \<^verbatim>\<open>open(p).read()\<close>, the text or the exception raised
    (\<^verbatim>\<open>OSError\<close>, \<^verbatim>\<open>UnicodeDecodeError\<close>).
  \<^item> \<open>json_load\<close>: \<^verbatim>\<open>json.load(open(p))\<close>, the parsed value or the exception raised;
    invalid JSON is \<open>JSONDecodeError\<close>.
  \<^item> \<open>urlopen\<close>: \<^verbatim>\<open>urllib.request.urlopen\<close> of a request for a URL with a method, the
    \<^verbatim>\<open>getcode()\<close> of the response it returns or the exception it raises. The library
    raises \<open>HTTPError\<close> for an error response of the server (404, 500, ...), and
    \<open>URLError\<close> when no connection is made.
  \<^item> \<open>re_findall\<close>: the number of matches \<^verbatim>\<open>re.findall(pattern, text, re.IGNORECASE)\<close>
    returns.
  \<^item> \<open>now\<close>: \<^verbatim>\<open>datetime.now().isoformat()\<close>; the clock of the model stands still during
    a run.
  The messages that \<^verbatim>\<open>log\<close> prints are not part of the model.
\<close>

record world =
  path_exists :: "path \<Rightarrow> bool"
  is_dir :: "path \<Rightarrow> bool"
  st_size :: "path \<Rightarrow> nat"
  st_mtime :: "path \<Rightarrow> int"
  iterdir :: "path \<Rightarrow> string list"
  read_text :: "path \<Rightarrow> exn + string"
  json_load :: "path \<Rightarrow> exn + pyval"
  urlopen :: "string \<Rightarrow> string \<Rightarrow> exn + nat"
  re_findall :: "string \<Rightarrow> string \<Rightarrow> nat"
  now :: string

text \<open>
  \<^verbatim>\<open>fnmatch\<close> of a name against a pattern whose only wildcard is \<open>*\<close> (the patterns of
  the suite have no other), and \<^verbatim>\<open>Path.glob\<close> of such a pattern: the entries of the
  directory whose names match.
\<close>

fun glob_match :: "string \<Rightarrow> string \<Rightarrow> bool" where
  "glob_match [] s = (s = [])"
| "glob_match (p # ps) s =
     (if p = CHR ''*''
      then (glob_match ps s \<or> (case s of [] \<Rightarrow> False | c # t \<Rightarrow> glob_match (p # ps) t))
      else (case s of [] \<Rightarrow> False | c # t \<Rightarrow> c = p \<and> glob_match ps t))"

definition glob :: "world \<Rightarrow> path \<Rightarrow> string \<Rightarrow> path list" where
  "glob w d pat = map (\<lambda>n. d @ [n]) (filter (glob_match pat) (iterdir w d))"

text \<open>The auditor object: \<^verbatim>\<open>self.base_dir\<close> and \<^verbatim>\<open>self.server_url\<close>.\<close>

record auditor =
  base_dir :: path
  server_url :: string

text \<open>The constructor of \<^verbatim>\<open>AuditResult\<close>; the timestamp is the default of the field.\<close>

definition new_result ::
  "world \<Rightarrow> string \<Rightarrow> string \<Rightarrow> string \<Rightarrow> (string \<times> pyval) list option \<Rightarrow> AuditResult" where
  "new_result w n s m d = \<lparr>name = n, status = s, message = m, details = d, timestamp = now w\<rparr>"

text \<open>Sequencing of calls that may raise: the first exception ends the computation.\<close>

definition and_then :: "exn + 'a \<Rightarrow> ('a \<Rightarrow> exn + 'b) \<Rightarrow> exn + 'b" where
  "and_then m f = (case m of Inl e \<Rightarrow> Inl e | Inr x \<Rightarrow> f x)"

section \<open>The file and directory runner\<close>

definition REQUIRED_FILES :: "string list" where
  "REQUIRED_FILES =
     [''zapier-webhook-server.cjs'',
      ''linkedin-content-creator.cjs'',
      ''dutch-recruitment-news-scraper.cjs'',
      ''google-sheets-uploader.cjs'',
      ''complete-automation-flow.cjs'',
      ''package.json'']"

definition REQUIRED_DIRS :: "string list" where
  "REQUIRED_DIRS = [''data'', ''content'', ''reports'']"

definition check_file :: "auditor \<Rightarrow> world \<Rightarrow> string \<Rightarrow> AuditResult" where
  "check_file a w filename =
     (let filepath = base_dir a @ [filename] in
      if path_exists w filepath
      then (let size = st_size w filepath in
            new_result w (''file_'' @ filename) ''pass''
              (filename @ '' exists ('' @ show_nat size @ '' bytes)'')
              (Some [(''path'', PStr (path_str filepath)), (''size'', PInt (int size))]))
      else new_result w (''file_'' @ filename) ''fail'' (filename @ '' is missing'') None)"

definition check_dir :: "auditor \<Rightarrow> world \<Rightarrow> string \<Rightarrow> AuditResult" where
  "check_dir a w dirname =
     (let dirpath = base_dir a @ [dirname] in
      if path_exists w dirpath \<and> is_dir w dirpath
      then (let file_count = length (iterdir w dirpath) in
            new_result w (''dir_'' @ dirname) ''pass''
              (dirname @ ''/ exists ('' @ show_nat file_count @ '' items)'')
              (Some [(''path'', PStr (path_str dirpath)), (''items'', PInt (int file_count))]))
      else new_result w (''dir_'' @ dirname) ''warn'' (dirname @ ''/ is missing'') None)"

definition audit_files :: "auditor \<Rightarrow> world \<Rightarrow> AuditResult list" where
  "audit_files a w = map (check_file a w) REQUIRED_FILES @ map (check_dir a w) REQUIRED_DIRS"

section \<open>The endpoint runner\<close>

text \<open>\<^verbatim>\<open>ENDPOINTS.items()\<close>, in the order of the dict.\<close>

definition ENDPOINTS :: "(string \<times> string) list" where
  "ENDPOINTS =
     [(''/status'', ''GET''),
      (''/test'', ''GET''),
      (''/reports'', ''GET''),
      (''/daily-news-collection'', ''POST''),
      (''/upload-to-sheets'', ''POST''),
      (''/weekly-content-creation'', ''POST''),
      (''/get-top-articles'', ''GET'')]"

text \<open>
  One turn of the loop of \<^verbatim>\<open>audit_endpoints\<close>: the request, and the three ways it ends
  (a response, \<^verbatim>\<open>except urllib.error.URLError\<close>, \<^verbatim>\<open>except Exception\<close>).
\<close>

definition probe_endpoint :: "auditor \<Rightarrow> world \<Rightarrow> string \<times> string \<Rightarrow> AuditResult" where
  "probe_endpoint a w em =
     (let endpoint = fst em; method = snd em; url = server_url a @ endpoint in
      case urlopen w url method of
        Inr status_code \<Rightarrow>
          (if status_code = 200
           then new_result w (''endpoint_'' @ endpoint) ''pass''
                  (method @ '' '' @ endpoint @ '' - HTTP '' @ show_nat status_code)
                  (Some [(''method'', PStr method), (''status'', PInt (int status_code))])
           else new_result w (''endpoint_'' @ endpoint) ''warn''
                  (method @ '' '' @ endpoint @ '' - HTTP '' @ show_nat status_code)
                  (Some [(''method'', PStr method), (''status'', PInt (int status_code))]))
      | Inl e \<Rightarrow>
          (if is_URLError e
           then new_result w (''endpoint_'' @ endpoint) ''fail''
                  (method @ '' '' @ endpoint @ '' - Connection failed'')
                  (Some [(''error'', PStr (exn_str e))])
           else new_result w (''endpoint_'' @ endpoint) ''fail''
                  (method @ '' '' @ endpoint @ '' - Error: '' @ exn_str e)
                  (Some [(''error'', PStr (exn_str e))])))"

definition audit_endpoints :: "auditor \<Rightarrow> world \<Rightarrow> AuditResult list" where
  "audit_endpoints a w = map (probe_endpoint a w) ENDPOINTS"


section \<open>The data integrity runner\<close>

text \<open>
  \<^verbatim>\<open>audit_data\<close> makes three checks in a row; each is a definition here. In the first
  two the \<^verbatim>\<open>try\<close> block catches \<^verbatim>\<open>json.JSONDecodeError\<close> only: any other exception
  leaves the runner.
\<close>

definition check_latest_news :: "world \<Rightarrow> exn + AuditResult" where
  "check_latest_news w =
     (let news_file = DATA_DIR @ [''latest-dutch-news.json''] in
      if path_exists w news_file
      then (case json_load w news_file of
              Inl e \<Rightarrow>
                (if is_JSONDecodeError e
                 then Inr (new_result w ''data_latest_news'' ''fail''
                             (''latest-dutch-news.json: Invalid JSON - '' @ exn_str e) None)
                 else Inl e)
            | Inr data \<Rightarrow>
                and_then (py_get data ''totalArticles'' (PInt 0)) (\<lambda>total_articles.
                and_then (and_then (py_get data ''categories'' (PList [])) py_len) (\<lambda>categories.
                and_then (and_then (py_get data ''sources'' (PList [])) py_len) (\<lambda>sources.
                  Inr (new_result w ''data_latest_news'' ''pass''
                         (''latest-dutch-news.json: '' @ py_str total_articles @ '' articles, ''
                            @ show_nat categories @ '' categories'')
                         (Some [(''total_articles'', total_articles),
                                (''categories'', PInt (int categories)),
                                (''sources'', PInt (int sources))]))))))
      else Inr (new_result w ''data_latest_news'' ''warn'' ''latest-dutch-news.json not found'' None))"

text \<open>\<^verbatim>\<open>len(data) if isinstance(data, list) else 0\<close>.\<close>

fun days_count_of :: "pyval \<Rightarrow> nat" where
  "days_count_of (PList xs) = length xs"
| "days_count_of _ = 0"

definition check_weekly_articles :: "world \<Rightarrow> exn + AuditResult" where
  "check_weekly_articles w =
     (let weekly_file = DATA_DIR @ [''weekly-top-articles.json''] in
      if path_exists w weekly_file
      then (case json_load w weekly_file of
              Inl e \<Rightarrow>
                (if is_JSONDecodeError e
                 then Inr (new_result w ''data_weekly_articles'' ''fail''
                             ''weekly-top-articles.json: Invalid JSON'' None)
                 else Inl e)
            | Inr data \<Rightarrow>
                (let days_count = days_count_of data in
                 Inr (new_result w ''data_weekly_articles''
                        (if 3 \<le> days_count then ''pass'' else ''warn'')
                        (''weekly-top-articles.json: '' @ show_nat days_count @ '' days of data'')
                        (Some [(''days'', PInt (int days_count))]))))
      else Inr (new_result w ''data_weekly_articles'' ''warn''
                  ''weekly-top-articles.json not found - needed for LinkedIn content'' None))"

definition check_backups :: "world \<Rightarrow> AuditResult" where
  "check_backups w =
     (let backup_files = glob w DATA_DIR ''sheets-backup-*.json'' in
      new_result w ''data_backups'' (if backup_files \<noteq> [] then ''pass'' else ''info'')
        (''Sheets backups: '' @ show_nat (length backup_files) @ '' files'')
        (Some [(''count'', PInt (int (length backup_files)))]))"

definition audit_data :: "world \<Rightarrow> exn + AuditResult list" where
  "audit_data w =
     and_then (check_latest_news w) (\<lambda>news.
     and_then (check_weekly_articles w) (\<lambda>weekly.
       Inr [news, weekly, check_backups w]))"

section \<open>The content runner\<close>

definition CONTENT_TYPES :: "string list" where
  "CONTENT_TYPES = [''weeklyRoundup'', ''insightPost'', ''trendAnalysis'', ''longFormArticle'']"

definition count_content_type :: "world \<Rightarrow> string \<Rightarrow> AuditResult" where
  "count_content_type w content_type =
     (let files = glob w CONTENT_DIR (''*-'' @ content_type @ ''.md'') in
      new_result w (''content_'' @ content_type) (if files \<noteq> [] then ''pass'' else ''info'')
        (content_type @ '': '' @ show_nat (length files) @ '' files'')
        (Some [(''count'', PInt (int (length files))),
               (''files'', PList (map (\<lambda>f. PStr (path_name f)) files))]))"

text \<open>
  \<^verbatim>\<open>max(md_files, key=lambda f: f.stat().st_mtime)\<close> on the non-empty list \<open>f # fs\<close>:
  \<^verbatim>\<open>max\<close> keeps the first of several greatest elements.
\<close>

definition latest_of :: "world \<Rightarrow> path \<Rightarrow> path list \<Rightarrow> path" where
  "latest_of w f fs = foldl (\<lambda>best g. if st_mtime w best < st_mtime w g then g else best) f fs"

definition DUTCH_KEYWORDS :: "string list" where
  "DUTCH_KEYWORDS = [''recruitment'', ''nederlandse'', ''arbeidsmarkt'']"

text \<open>The quality check of the latest markdown file: no result when there is none.\<close>

definition check_content_quality :: "world \<Rightarrow> exn + AuditResult list" where
  "check_content_quality w =
     (case glob w CONTENT_DIR ''*.md'' of
        [] \<Rightarrow> Inr []
      | f # fs \<Rightarrow>
          (let latest_file = latest_of w f fs in
           and_then (read_text w latest_file) (\<lambda>content.
             (let word_count = length (py_split content);
                  has_hashtags = str_in ''#'' content;
                  has_dutch = list_ex (\<lambda>word. str_in word (py_lower content)) DUTCH_KEYWORDS
              in Inr [new_result w ''content_quality''
                        (if 100 < word_count \<and> has_hashtags \<and> has_dutch then ''pass'' else ''warn'')
                        (''Latest content: '' @ path_name latest_file @ '' (''
                           @ show_nat word_count @ '' words)'')
                        (Some [(''file'', PStr (path_name latest_file)),
                               (''word_count'', PInt (int word_count)),
                               (''has_hashtags'', PBool has_hashtags),
                               (''has_dutch_keywords'', PBool has_dutch)])]))))"

definition check_metadata :: "world \<Rightarrow> AuditResult" where
  "check_metadata w =
     (let metadata_files = glob w CONTENT_DIR ''*-metadata.json'' in
      new_result w ''content_metadata'' (if metadata_files \<noteq> [] then ''pass'' else ''info'')
        (''Metadata files: '' @ show_nat (length metadata_files))
        (Some [(''count'', PInt (int (length metadata_files)))]))"

definition audit_linkedin_content :: "world \<Rightarrow> exn + AuditResult list" where
  "audit_linkedin_content w =
     (if path_exists w CONTENT_DIR
      then and_then (check_content_quality w) (\<lambda>quality.
             Inr (map (count_content_type w) CONTENT_TYPES @ quality @ [check_metadata w]))
      else Inr [new_result w ''content_dir'' ''warn'' ''Content directory does not exist'' None])"

section \<open>The security runner\<close>

abbreviation bs :: string where
  "bs \<equiv> [CHR 0x5C]"

abbreviation dq :: string where
  "dq \<equiv> [CHR 0x22]"

text \<open>The regular expressions, character by character, each with the label of its issue.\<close>

definition SECURITY_PATTERNS :: "(string \<times> string) list" where
  "SECURITY_PATTERNS =
     [(''(api_key|apikey)'' @ bs @ ''s*[=:]'' @ bs @ ''s*['' @ dq @ bs @ sq @ ''][^'' @ dq @ bs @ sq
         @ '']{10,}['' @ dq @ bs @ sq @ '']'', ''Hardcoded API key''),
      (''(secret|password)'' @ bs @ ''s*[=:]'' @ bs @ ''s*['' @ dq @ bs @ sq @ ''][^'' @ dq @ bs @ sq
         @ '']{8,}['' @ dq @ bs @ sq @ '']'', ''Hardcoded secret/password''),
      (''(token)'' @ bs @ ''s*[=:]'' @ bs @ ''s*['' @ dq @ bs @ sq @ ''][^'' @ dq @ bs @ sq
         @ '']{20,}['' @ dq @ bs @ sq @ '']'', ''Hardcoded token''),
      (''eval'' @ bs @ ''s*'' @ bs @ ''('', ''Unsafe eval() usage''),
      (''innerHTML'' @ bs @ ''s*='', ''Potential XSS via innerHTML'')]"

text \<open>
  The scan of one source file: an exception while reading it is caught (and logged), and
  the file contributes no issue.
\<close>

definition scan_file :: "world \<Rightarrow> path \<Rightarrow> pyval list" where
  "scan_file w js_file =
     (case read_text w js_file of
        Inl e \<Rightarrow> []
      | Inr content \<Rightarrow>
          map (\<lambda>pi. PDict [(''file'', PStr (path_name js_file)),
                            (''issue'', PStr (snd pi)),
                            (''matches'', PInt (int (re_findall w (fst pi) content)))])
            (filter (\<lambda>pi. re_findall w (fst pi) content \<noteq> 0) SECURITY_PATTERNS))"

definition check_code_scan :: "auditor \<Rightarrow> world \<Rightarrow> AuditResult" where
  "check_code_scan a w =
     (let js_files = glob w (base_dir a) ''*.cjs'';
          issues_found = concat (map (scan_file w) js_files)
      in if issues_found \<noteq> []
         then new_result w ''security_code_scan'' ''warn''
                (''Found '' @ show_nat (length issues_found) @ '' potential security issues'')
                (Some [(''issues'', PList issues_found)])
         else new_result w ''security_code_scan'' ''pass''
                ''No obvious security issues in code'' None)"

definition check_env_file :: "auditor \<Rightarrow> world \<Rightarrow> exn + AuditResult list" where
  "check_env_file a w =
     (let env_file = base_dir a @ [''.env''] in
      if path_exists w env_file
      then and_then (read_text w env_file) (\<lambda>env_content.
             (let has_webhook_secret = str_in ''WEBHOOK_SECRET'' env_content in
              Inr [new_result w ''security_env_file'' ''pass'' ''.env file exists'' None,
                   new_result w ''security_webhook_secret''
                     (if has_webhook_secret then ''pass'' else ''warn'')
                     (''WEBHOOK_SECRET: ''
                        @ (if has_webhook_secret then ''configured'' else ''not found''))
                     None]))
      else Inr [new_result w ''security_env_file'' ''warn'' ''.env file not found'' None])"

definition check_gitignore :: "auditor \<Rightarrow> world \<Rightarrow> exn + AuditResult list" where
  "check_gitignore a w =
     (let gitignore_file = base_dir a @ [''.gitignore''] in
      if path_exists w gitignore_file
      then and_then (read_text w gitignore_file) (\<lambda>gitignore_content.
             (let env_ignored = str_in ''.env'' gitignore_content in
              Inr [new_result w ''security_gitignore''
                     (if env_ignored then ''pass'' else ''fail'')
                     (''.env in .gitignore: '' @ show_bool env_ignored) None]))
      else Inr [])"

definition OPEN_CORS :: string where
  "OPEN_CORS = ''Access-Control-Allow-Origin'' @ sq @ '', '' @ sq @ ''*'' @ sq"

definition check_cors :: "auditor \<Rightarrow> world \<Rightarrow> exn + AuditResult list" where
  "check_cors a w =
     (let server_file = base_dir a @ [''zapier-webhook-server.cjs''] in
      if path_exists w server_file
      then and_then (read_text w server_file) (\<lambda>server_content.
             (let open_cors = str_in OPEN_CORS server_content in
              Inr [new_result w ''security_cors''
                     (if open_cors then ''warn'' else ''pass'')
                     (''CORS: '' @ (if open_cors then ''Open (*)'' else ''Restricted'')) None]))
      else Inr [])"

definition audit_security :: "auditor \<Rightarrow> world \<Rightarrow> exn + AuditResult list" where
  "audit_security a w =
     (let scan = check_code_scan a w in
      and_then (check_env_file a w) (\<lambda>env.
      and_then (check_gitignore a w) (\<lambda>gitignore.
      and_then (check_cors a w) (\<lambda>cors.
        Inr (scan # env @ gitignore @ cors)))))"


section \<open>The code quality runner\<close>

definition required_methods :: "string list" where
  "required_methods =
     [''runWeeklyContentCreation'',
      ''generateWeeklyRoundupPost'',
      ''generateInsightPost'',
      ''generateTrendAnalysisPost'',
      ''generateLongFormArticle'',
      ''analyzeWeeklyTrends'']"

definition templates :: "string list" where
  "templates = [''weeklyRoundup'', ''insightPost'', ''trendAnalysis'', ''article'']"

definition endpoints_in_code :: "string list" where
  "endpoints_in_code =
     [''/daily-news-collection'',
      ''/upload-to-sheets'',
      ''/weekly-content-creation'',
      ''/get-top-articles'',
      ''/status'',
      ''/test'',
      ''/reports'']"

definition check_creator :: "auditor \<Rightarrow> world \<Rightarrow> exn + AuditResult list" where
  "check_creator a w =
     (let creator_file = base_dir a @ [''linkedin-content-creator.cjs''] in
      if path_exists w creator_file
      then and_then (read_text w creator_file) (\<lambda>content.
             (let found_methods = filter (\<lambda>m. str_in m content) required_methods;
                  missing_methods = filter (\<lambda>m. \<not> str_in m content) required_methods;
                  found_templates = filter (\<lambda>t. str_in t content) templates
              in Inr [new_result w ''code_linkedin_methods''
                        (if missing_methods = [] then ''pass'' else ''warn'')
                        (''LinkedIn Creator: '' @ show_nat (length found_methods) @ ''/''
                           @ show_nat (length required_methods) @ '' methods found'')
                        (Some [(''found'', PList (map PStr found_methods)),
                               (''missing'', PList (map PStr missing_methods))]),
                      new_result w ''code_templates''
                        (if length found_templates = length templates then ''pass'' else ''warn'')
                        (''Content templates: '' @ show_nat (length found_templates) @ ''/''
                           @ show_nat (length templates) @ '' configured'')
                        (Some [(''templates'', PList (map PStr found_templates))])]))
      else Inr [])"

definition check_server_endpoints :: "auditor \<Rightarrow> world \<Rightarrow> exn + AuditResult list" where
  "check_server_endpoints a w =
     (let server_file = base_dir a @ [''zapier-webhook-server.cjs''] in
      if path_exists w server_file
      then and_then (read_text w server_file) (\<lambda>content.
             (let found_endpoints = filter (\<lambda>e. str_in e content) endpoints_in_code in
              Inr [new_result w ''code_endpoints''
                     (if length found_endpoints = length endpoints_in_code then ''pass'' else ''warn'')
                     (''Webhook endpoints: '' @ show_nat (length found_endpoints) @ ''/''
                        @ show_nat (length endpoints_in_code) @ '' implemented'')
                     (Some [(''endpoints'', PList (map PStr found_endpoints))])]))
      else Inr [])"

text \<open>
  The loop that counts the source files with a \<^verbatim>\<open>try {\<close>: the files are read in order,
  and the first one that cannot be read raises.
\<close>

fun count_try_catch :: "world \<Rightarrow> path list \<Rightarrow> exn + nat" where
  "count_try_catch w [] = Inr 0"
| "count_try_catch w (js_file # rest) =
     and_then (read_text w js_file) (\<lambda>text.
     and_then (count_try_catch w rest) (\<lambda>n.
       Inr ((if str_in ''try {'' text then 1 else 0) + n)))"

definition check_error_handling :: "auditor \<Rightarrow> world \<Rightarrow> exn + AuditResult" where
  "check_error_handling a w =
     (let js_files = glob w (base_dir a) ''*.cjs'' in
      and_then (count_try_catch w js_files) (\<lambda>files_with_try_catch.
        Inr (new_result w ''code_error_handling''
               (if 3 < files_with_try_catch then ''pass'' else ''warn'')
               (''Error handling: '' @ show_nat files_with_try_catch @ ''/''
                  @ show_nat (length js_files) @ '' files use try-catch'')
               (Some [(''files_with_handling'', PInt (int files_with_try_catch)),
                      (''total_files'', PInt (int (length js_files)))]))))"

definition audit_code_quality :: "auditor \<Rightarrow> world \<Rightarrow> exn + AuditResult list" where
  "audit_code_quality a w =
     and_then (check_creator a w) (\<lambda>creator.
     and_then (check_server_endpoints a w) (\<lambda>server.
     and_then (check_error_handling a w) (\<lambda>handling.
       Inr (creator @ server @ [handling]))))"

section \<open>Aggregation and serialization\<close>

definition count_status :: "string \<Rightarrow> AuditResult list \<Rightarrow> nat" where
  "count_status s rs = length (filter (\<lambda>r. status r = s) rs)"

definition run_full_audit :: "auditor \<Rightarrow> world \<Rightarrow> exn + AuditReport" where
  "run_full_audit a w =
     (let file_results = audit_files a w;
          endpoint_results = audit_endpoints a w
      in and_then (audit_data w) (\<lambda>data_results.
         and_then (audit_linkedin_content w) (\<lambda>content_results.
         and_then (audit_security a w) (\<lambda>security_results.
         and_then (audit_code_quality a w) (\<lambda>code_results.
           (let all_results = file_results @ endpoint_results @ data_results
                                @ content_results @ security_results @ code_results;
                summary = [(''total_checks'', PInt (int (length all_results))),
                           (''passed'', PInt (int (count_status ''pass'' all_results))),
                           (''warnings'', PInt (int (count_status ''warn'' all_results))),
                           (''failed'', PInt (int (count_status ''fail'' all_results))),
                           (''info'', PInt (int (count_status ''info'' all_results)))];
                recommendations = generate_recommendations all_results
            in Inr \<lparr>title = ''Dutch Recruitment Intelligence - Audit Report'',
                    report_timestamp = now w,
                    summary = summary,
                    file_audit = file_results,
                    endpoint_audit = endpoint_results,
                    data_audit = data_results,
                    content_audit = content_results,
                    security_audit = security_results,
                    code_audit = code_results,
                    recommendations = recommendations\<rparr>))))))"

text \<open>\<^verbatim>\<open>dataclasses.asdict\<close> of a result, and \<^verbatim>\<open>AuditReport.to_dict\<close>.\<close>

definition asdict :: "AuditResult \<Rightarrow> pyval" where
  "asdict r =
     PDict [(''name'', PStr (name r)),
            (''status'', PStr (status r)),
            (''message'', PStr (message r)),
            (''details'', (case details r of None \<Rightarrow> PNone | Some d \<Rightarrow> PDict d)),
            (''timestamp'', PStr (timestamp r))]"

definition to_dict :: "AuditReport \<Rightarrow> pyval" where
  "to_dict rep =
     PDict [(''title'', PStr (title rep)),
            (''timestamp'', PStr (report_timestamp rep)),
            (''summary'', PDict (summary rep)),
            (''file_audit'', PList (map asdict (file_audit rep))),
            (''endpoint_audit'', PList (map asdict (endpoint_audit rep))),
            (''data_audit'', PList (map asdict (data_audit rep))),
            (''content_audit'', PList (map asdict (content_audit rep))),
            (''security_audit'', PList (map asdict (security_audit rep))),
            (''code_audit'', PList (map asdict (code_audit rep))),
            (''recommendations'', PList (map PStr (recommendations rep)))]"

text \<open>\<^verbatim>\<open>d[k]\<close> on a value read back from JSON: the entry of a dict, if there is one.\<close>

fun py_item :: "pyval \<Rightarrow> string \<Rightarrow> pyval option" where
  "py_item (PDict d) k = map_of d k"
| "py_item _ k = None"


section \<open>Statuses, the default auditor and example worlds\<close>

text \<open>The four words a status is expected to be.\<close>

definition valid_status :: "string \<Rightarrow> bool" where
  "valid_status s = (s \<in> {''pass'', ''warn'', ''fail'', ''info''})"

text \<open>The six category lists of a report, in the order \<^verbatim>\<open>run_full_audit\<close> joins them.\<close>

definition all_results_of :: "AuditReport \<Rightarrow> AuditResult list" where
  "all_results_of rep = file_audit rep @ endpoint_audit rep @ data_audit rep
                        @ content_audit rep @ security_audit rep @ code_audit rep"

text \<open>
  \<^verbatim>\<open>LinkedInAutomationAuditor()\<close> as \<^verbatim>\<open>main\<close> builds it, with the default of
  \<^verbatim>\<open>WEBHOOK_BASE_URL\<close>.
\<close>

definition default_auditor :: auditor where
  "default_auditor = \<lparr>base_dir = BASE_DIR, server_url = ''http://localhost:3000''\<rparr>"

text \<open>
  A world from a list of text files (path, modification time, content) and a list of
  directories: no file holds JSON, no server listens, no pattern matches. The examples
  below override single observations of it.
\<close>

definition world_of :: "(path \<times> int \<times> string) list \<Rightarrow> path list \<Rightarrow> world" where
  "world_of files dirs =
     \<lparr>path_exists = (\<lambda>p. p \<in> set dirs \<or> p \<in> set (map fst files)),
      is_dir = (\<lambda>p. p \<in> set dirs),
      st_size = (\<lambda>p. case map_of files p of Some mt \<Rightarrow> length (snd mt) | None \<Rightarrow> 0),
      st_mtime = (\<lambda>p. case map_of files p of Some mt \<Rightarrow> fst mt | None \<Rightarrow> 0),
      iterdir = (\<lambda>d. map last (filter (\<lambda>p. p \<noteq> [] \<and> butlast p = d) (dirs @ map fst files))),
      read_text = (\<lambda>p. case map_of files p of
                          Some mt \<Rightarrow> Inr (snd mt)
                        | None \<Rightarrow> Inl (OSError ''[Errno 2] No such file or directory'')),
      json_load = (\<lambda>p. Inl (OSError ''[Errno 2] No such file or directory'')),
      urlopen = (\<lambda>url method. Inl (URLError ''[Errno 111] Connection refused'')),
      re_findall = (\<lambda>pattern text. 0),
      now = ''2025-01-01T09:00:00''\<rparr>"

text \<open>A project directory with nothing in it.\<close>

definition empty_project :: world where
  "empty_project = world_of [] [[]]"

text \<open>A single result, as the security runner reports an open CORS policy.\<close>

definition open_cors_result :: AuditResult where
  "open_cors_result =
     \<lparr>name = ''security_cors'', status = ''warn'', message = ''CORS: Open (*)'',
      details = None, timestamp = ''2025-01-01T09:00:00''\<rparr>"

text \<open>The two JSON artifacts of the data directory.\<close>

definition news_file :: path where
  "news_file = DATA_DIR @ [''latest-dutch-news.json'']"

definition weekly_file :: path where
  "weekly_file = DATA_DIR @ [''weekly-top-articles.json'']"

text \<open>
  A data directory that holds both artifacts; the arguments are what \<^verbatim>\<open>json.load\<close>
  makes of each.
\<close>

definition data_world :: "exn + pyval \<Rightarrow> exn + pyval \<Rightarrow> world" where
  "data_world news weekly =
     (world_of [(news_file, 10, ''{}''), (weekly_file, 20, ''[]'')] [[], DATA_DIR])
       \<lparr>json_load := (\<lambda>p. if p = news_file then news
                           else if p = weekly_file then weekly
                           else Inl (OSError ''[Errno 2] No such file or directory''))\<rparr>"

definition news_ok :: pyval where
  "news_ok = PDict [(''totalArticles'', PInt 12),
                    (''categories'', PList [PStr ''hr'', PStr ''tech''])]"

text \<open>A content directory that exists and is empty.\<close>

definition empty_content_dir :: world where
  "empty_content_dir = world_of [] [[], CONTENT_DIR]"





text \<open>A project with a secrets file and an ignore file of the given content.\<close>

definition gitignore_world :: "string \<Rightarrow> world" where
  "gitignore_world body =
     world_of [([''.env''], 10, ''PORT=3000''), ([''.gitignore''], 20, body)] [[]]"

text \<open>
  A server that answers every request with 200, except \<^verbatim>\<open>GET /status\<close>, which it
  answers with 404; \<^verbatim>\<open>urlopen\<close> raises \<^verbatim>\<open>HTTPError\<close> for that response.
\<close>

definition not_found_server :: world where
  "not_found_server =
     empty_project\<lparr>urlopen := (\<lambda>url method.
        if url = ''http://localhost:3000/status'' then Inl (HTTPError 404 ''Not Found'')
        else Inr 200)\<rparr>"

text \<open>
  What an ignore file excludes, by git's rules for ignore files, on the lines that are a
  file name or a name with the wildcard \<open>*\<close>, with or without a leading \<open>!\<close>: an empty line
  and a line that starts with \<open>#\<close> say nothing, a line that starts with \<open>!\<close> includes the
  names its pattern matches again, and the last line whose pattern matches a name decides.
  (Patterns with a slash, \<open>?\<close>, brackets, a backslash or trailing blanks are not covered.)
  The suite has no such function: it is what the words "excludes the secrets file" mean.
\<close>

fun lines_from :: "string \<Rightarrow> string \<Rightarrow> string list" where
  "lines_from cur [] = [cur]"
| "lines_from cur (c # cs) =
     (if c = CHR 0x0A then cur # lines_from [] cs else lines_from (cur @ [c]) cs)"

definition ignore_step :: "string \<Rightarrow> bool \<Rightarrow> string \<Rightarrow> bool" where
  "ignore_step fname ignored line =
     (case line of
        [] \<Rightarrow> ignored
      | c # rest \<Rightarrow>
          if c = CHR ''#'' then ignored
          else if c = CHR ''!'' then (if glob_match rest fname then False else ignored)
          else (if glob_match line fname then True else ignored))"

definition git_excludes :: "string \<Rightarrow> string \<Rightarrow> bool" where
  "git_excludes body fname = foldl (ignore_step fname) False (lines_from [] body)"

text \<open>What reading a file that is not UTF-8 raises.\<close>

definition undecodable :: exn where
  "undecodable = UnicodeDecodeError
     (sq @ ''utf-8'' @ sq @ '' codec can't decode byte 0xff in position 0: invalid start byte'')"

section \<open>Properties\<close>

subsection \<open>Basic facts\<close>

lemma status_new_result [simp]: "status (new_result w n s m d) = s"
  by (simp add: new_result_def)

lemma name_new_result [simp]: "name (new_result w n s m d) = n"
  by (simp add: new_result_def)

lemma and_then_Inr: "and_then m f = Inr y \<longleftrightarrow> (\<exists>x. m = Inr x \<and> f x = Inr y)"
  by (cases m) (simp_all add: and_then_def)

lemma obtain_Inr: "\<not> isl m \<Longrightarrow> \<exists>x. m = Inr x"
  by (cases m) auto

lemma valid_status_simps [simp]:
  "valid_status ''pass''" "valid_status ''warn''" "valid_status ''fail''" "valid_status ''info''"
  by (simp_all add: valid_status_def)

text \<open>\<open>str_in\<close> is the substring relation, and matching in a lower-cased text is matching
  a substring whose lower-casing is the needle.\<close>

lemma str_in_iff: "str_in s xs \<longleftrightarrow> (\<exists>p q. xs = p @ s @ q)"
proof (induction xs)
  case Nil
  show ?case by simp
next
  case (Cons c cs)
  show ?case
  proof
    assume "str_in s (c # cs)"
    then consider "prefix s (c # cs)" | "str_in s cs" by auto
    then show "\<exists>p q. c # cs = p @ s @ q"
    proof cases
      case 1
      then obtain q where "c # cs = s @ q" by (auto simp: prefix_def)
      then have "c # cs = [] @ s @ q" by simp
      then show ?thesis by blast
    next
      case 2
      with Cons.IH obtain p q where "cs = p @ s @ q" by blast
      then have "c # cs = (c # p) @ s @ q" by simp
      then show ?thesis by blast
    qed
  next
    assume "\<exists>p q. c # cs = p @ s @ q"
    then obtain p q where pq: "c # cs = p @ s @ q" by blast
    show "str_in s (c # cs)"
    proof (cases p)
      case Nil
      with pq have "prefix s (c # cs)" by (simp add: prefix_def)
      then show ?thesis by simp
    next
      case (Cons a p')
      with pq have "cs = p' @ s @ q" by simp
      with Cons.IH have "str_in s cs" by blast
      then show ?thesis by simp
    qed
  qed
qed

lemma str_in_map_iff:
  "str_in k (map f xs) \<longleftrightarrow> (\<exists>s. str_in s xs \<and> map f s = k)"
proof
  assume "str_in k (map f xs)"
  then obtain p q where "map f xs = p @ k @ q" unfolding str_in_iff by blast
  then have "\<exists>us vs. xs = us @ vs \<and> p = map f us \<and> k @ q = map f vs"
    by (simp add: map_eq_append_conv)
  then obtain p' r where 1: "xs = p' @ r" and 2: "map f r = k @ q" by metis
  from 2 have "\<exists>us vs. r = us @ vs \<and> k = map f us \<and> q = map f vs"
    by (simp add: map_eq_append_conv)
  then obtain s q' where 3: "r = s @ q'" and 4: "map f s = k" by metis
  from 1 3 4 have "xs = p' @ s @ q'" "map f s = k" by simp_all
  then show "\<exists>s. str_in s xs \<and> map f s = k" unfolding str_in_iff by blast
next
  assume "\<exists>s. str_in s xs \<and> map f s = k"
  then obtain s p q where "xs = p @ s @ q" "map f s = k" unfolding str_in_iff by blast
  then have "map f xs = map f p @ k @ map f q" by simp
  then show "str_in k (map f xs)" unfolding str_in_iff by blast
qed

lemma keyword_match_case_insensitive:
  "str_in k (py_lower content) \<longleftrightarrow> (\<exists>s. str_in s content \<and> py_lower s = k)"
  unfolding py_lower_def by (rule str_in_map_iff)

subsection \<open>The recommendations end with the general advice\<close>

text \<open>
  Claim C9. For every list of results, the output of the recommendation engine is some
  rule-derived advice followed by the same four general recommendations, whichever rules
  fired; so the output is never empty.
\<close>

theorem recommendations_end_with_defaults:
  "(\<exists>advice. generate_recommendations rs = advice @ default_recommendations)
   \<and> length default_recommendations = 4
   \<and> generate_recommendations rs \<noteq> []"
  by (simp add: generate_recommendations_def Let_def default_recommendations_def)

theorem recommendations_end_with_defaults_witness:
  "(\<exists>advice. generate_recommendations [open_cors_result] = advice @ default_recommendations)
   \<and> length default_recommendations = 4
   \<and> generate_recommendations [open_cors_result] \<noteq> []"
  by (rule recommendations_end_with_defaults)

subsection \<open>Every runner reports one of the four statuses\<close>

lemma count_status_partition:
  "list_all (\<lambda>r. valid_status (status r)) rs \<Longrightarrow>
   length rs = count_status ''pass'' rs + count_status ''warn'' rs
             + count_status ''fail'' rs + count_status ''info'' rs"
  by (induction rs) (auto simp: count_status_def valid_status_def)

lemma check_file_valid: "valid_status (status (check_file a w f))"
  by (simp add: check_file_def Let_def)

lemma check_dir_valid: "valid_status (status (check_dir a w d))"
  by (simp add: check_dir_def Let_def)

lemma audit_files_valid: "list_all (\<lambda>r. valid_status (status r)) (audit_files a w)"
  by (simp add: audit_files_def list.pred_map comp_def check_file_valid check_dir_valid
                list.pred_True)

lemma probe_endpoint_valid: "valid_status (status (probe_endpoint a w em))"
  by (simp add: probe_endpoint_def Let_def split: sum.split)

lemma audit_endpoints_valid: "list_all (\<lambda>r. valid_status (status r)) (audit_endpoints a w)"
  by (simp add: audit_endpoints_def list.pred_map comp_def probe_endpoint_valid list.pred_True)

lemma check_latest_news_valid: "check_latest_news w = Inr r \<Longrightarrow> valid_status (status r)"
  by (auto simp: check_latest_news_def Let_def and_then_Inr split: if_splits sum.splits)

lemma check_weekly_articles_valid: "check_weekly_articles w = Inr r \<Longrightarrow> valid_status (status r)"
  by (auto simp: check_weekly_articles_def Let_def and_then_Inr split: if_splits sum.splits)

lemma check_backups_valid: "valid_status (status (check_backups w))"
  by (simp add: check_backups_def Let_def)

lemma audit_data_valid:
  "audit_data w = Inr rs \<Longrightarrow> list_all (\<lambda>r. valid_status (status r)) rs"
  by (auto simp: audit_data_def and_then_Inr check_backups_valid
           dest: check_latest_news_valid check_weekly_articles_valid)

lemma count_content_type_valid: "valid_status (status (count_content_type w t))"
  by (simp add: count_content_type_def Let_def)

lemma check_metadata_valid: "valid_status (status (check_metadata w))"
  by (simp add: check_metadata_def Let_def)

lemma check_content_quality_valid:
  "check_content_quality w = Inr rs \<Longrightarrow> list_all (\<lambda>r. valid_status (status r)) rs"
  by (auto simp: check_content_quality_def Let_def and_then_Inr split: list.splits)

lemma audit_linkedin_content_valid:
  "audit_linkedin_content w = Inr rs \<Longrightarrow> list_all (\<lambda>r. valid_status (status r)) rs"
  by (auto simp: audit_linkedin_content_def and_then_Inr list.pred_map comp_def
                 count_content_type_valid check_metadata_valid list.pred_True
           split: if_splits dest: check_content_quality_valid)

lemma check_code_scan_valid: "valid_status (status (check_code_scan a w))"
  by (simp add: check_code_scan_def Let_def)

lemma check_env_file_valid:
  "check_env_file a w = Inr rs \<Longrightarrow> list_all (\<lambda>r. valid_status (status r)) rs"
  by (auto simp: check_env_file_def Let_def and_then_Inr split: if_splits)

lemma check_gitignore_valid:
  "check_gitignore a w = Inr rs \<Longrightarrow> list_all (\<lambda>r. valid_status (status r)) rs"
  by (auto simp: check_gitignore_def Let_def and_then_Inr split: if_splits)

lemma check_cors_valid:
  "check_cors a w = Inr rs \<Longrightarrow> list_all (\<lambda>r. valid_status (status r)) rs"
  by (auto simp: check_cors_def Let_def and_then_Inr split: if_splits)

lemma audit_security_valid:
  "audit_security a w = Inr rs \<Longrightarrow> list_all (\<lambda>r. valid_status (status r)) rs"
  by (auto simp: audit_security_def Let_def and_then_Inr check_code_scan_valid
           dest: check_env_file_valid check_gitignore_valid check_cors_valid)

lemma check_creator_valid:
  "check_creator a w = Inr rs \<Longrightarrow> list_all (\<lambda>r. valid_status (status r)) rs"
  by (auto simp: check_creator_def Let_def and_then_Inr split: if_splits)

lemma check_server_endpoints_valid:
  "check_server_endpoints a w = Inr rs \<Longrightarrow> list_all (\<lambda>r. valid_status (status r)) rs"
  by (auto simp: check_server_endpoints_def Let_def and_then_Inr split: if_splits)

lemma check_error_handling_valid:
  "check_error_handling a w = Inr r \<Longrightarrow> valid_status (status r)"
  by (auto simp: check_error_handling_def Let_def and_then_Inr split: if_splits)

lemma audit_code_quality_valid:
  "audit_code_quality a w = Inr rs \<Longrightarrow> list_all (\<lambda>r. valid_status (status r)) rs"
  by (auto simp: audit_code_quality_def and_then_Inr
           dest: check_creator_valid check_server_endpoints_valid check_error_handling_valid)

subsection \<open>The summary of a full audit\<close>

lemma run_full_audit_Inr:
  assumes "run_full_audit a w = Inr rep"
  shows "list_all (\<lambda>r. valid_status (status r)) (all_results_of rep)"
    and "summary rep =
           [(''total_checks'', PInt (int (length (all_results_of rep)))),
            (''passed'', PInt (int (count_status ''pass'' (all_results_of rep)))),
            (''warnings'', PInt (int (count_status ''warn'' (all_results_of rep)))),
            (''failed'', PInt (int (count_status ''fail'' (all_results_of rep)))),
            (''info'', PInt (int (count_status ''info'' (all_results_of rep))))]"
  using assms
  by (auto simp: run_full_audit_def Let_def and_then_Inr all_results_of_def
                 audit_files_valid audit_endpoints_valid
           dest: audit_data_valid audit_linkedin_content_valid audit_security_valid
                 audit_code_quality_valid)

lemma empty_project_runs: "\<not> isl (run_full_audit default_auditor empty_project)"
  by code_simp

text \<open>
  Claim C1. Whenever a full audit returns a report, its summary holds five counts with
  \<open>total_checks = passed + warnings + failed + info\<close>, and \<open>total_checks\<close> is the number of
  results in the six category lists together; every result that a runner put there has one
  of the statuses pass, warn, fail, info.
\<close>

theorem summary_counts_consistent:
  assumes "run_full_audit a w = Inr rep"
  shows "\<exists>total passed warnings failed info.
           map_of (summary rep) ''total_checks'' = Some (PInt (int total))
         \<and> map_of (summary rep) ''passed'' = Some (PInt (int passed))
         \<and> map_of (summary rep) ''warnings'' = Some (PInt (int warnings))
         \<and> map_of (summary rep) ''failed'' = Some (PInt (int failed))
         \<and> map_of (summary rep) ''info'' = Some (PInt (int info))
         \<and> total = passed + warnings + failed + info
         \<and> total = length (file_audit rep) + length (endpoint_audit rep) + length (data_audit rep)
                   + length (content_audit rep) + length (security_audit rep)
                   + length (code_audit rep)
         \<and> list_all (\<lambda>r. status r \<in> {''pass'', ''warn'', ''fail'', ''info''})
              (file_audit rep @ endpoint_audit rep @ data_audit rep
               @ content_audit rep @ security_audit rep @ code_audit rep)"
proof -
  let ?all = "all_results_of rep"
  have valid: "list_all (\<lambda>r. valid_status (status r)) ?all"
    and sm: "summary rep =
           [(''total_checks'', PInt (int (length ?all))),
            (''passed'', PInt (int (count_status ''pass'' ?all))),
            (''warnings'', PInt (int (count_status ''warn'' ?all))),
            (''failed'', PInt (int (count_status ''fail'' ?all))),
            (''info'', PInt (int (count_status ''info'' ?all)))]"
    using run_full_audit_Inr [OF assms] by blast+
  have part: "length ?all = count_status ''pass'' ?all + count_status ''warn'' ?all
                           + count_status ''fail'' ?all + count_status ''info'' ?all"
    by (rule count_status_partition [OF valid])
  have len: "length ?all = length (file_audit rep) + length (endpoint_audit rep)
               + length (data_audit rep) + length (content_audit rep)
               + length (security_audit rep) + length (code_audit rep)"
    by (simp add: all_results_of_def)
  have v: "list_all (\<lambda>r. status r \<in> {''pass'', ''warn'', ''fail'', ''info''}) ?all"
    using valid by (simp add: valid_status_def)
  show ?thesis
    apply (rule exI [of _ "length ?all"])
    apply (rule exI [of _ "count_status ''pass'' ?all"])
    apply (rule exI [of _ "count_status ''warn'' ?all"])
    apply (rule exI [of _ "count_status ''fail'' ?all"])
    apply (rule exI [of _ "count_status ''info'' ?all"])
    using part len v by (simp add: sm all_results_of_def)
qed

theorem summary_counts_consistent_witness:
  "\<exists>rep total passed warnings failed info.
     run_full_audit default_auditor empty_project = Inr rep
   \<and> map_of (summary rep) ''total_checks'' = Some (PInt (int total))
   \<and> map_of (summary rep) ''passed'' = Some (PInt (int passed))
   \<and> map_of (summary rep) ''warnings'' = Some (PInt (int warnings))
   \<and> map_of (summary rep) ''failed'' = Some (PInt (int failed))
   \<and> map_of (summary rep) ''info'' = Some (PInt (int info))
   \<and> total = passed + warnings + failed + info
   \<and> total = length (file_audit rep) + length (endpoint_audit rep) + length (data_audit rep)
             + length (content_audit rep) + length (security_audit rep)
             + length (code_audit rep)"
proof -
  obtain rep where r: "run_full_audit default_auditor empty_project = Inr rep"
    using empty_project_runs by (cases "run_full_audit default_auditor empty_project") auto
  from summary_counts_consistent [OF r] r show ?thesis by blast
qed


subsection \<open>The weekly articles check\<close>

text \<open>
  The weekly check by itself: it returns pass exactly when the file exists, parses as JSON
  and has a day count (the length of a list, 0 for every other value) of at least 3; warn
  exactly when the file is missing or the day count is below 3; fail exactly when the file
  exists and \<^verbatim>\<open>json.load\<close> raises \<^verbatim>\<open>JSONDecodeError\<close>; and it raises exactly when the file
  exists and \<^verbatim>\<open>json.load\<close> raises anything else.
\<close>

lemma check_weekly_articles_outcomes:
  "((\<exists>r. check_weekly_articles w = Inr r \<and> name r = ''data_weekly_articles'' \<and> status r = ''pass'')
      \<longleftrightarrow> path_exists w (DATA_DIR @ [''weekly-top-articles.json''])
          \<and> (\<exists>data. json_load w (DATA_DIR @ [''weekly-top-articles.json'']) = Inr data
                    \<and> 3 \<le> days_count_of data))
 \<and> ((\<exists>r. check_weekly_articles w = Inr r \<and> name r = ''data_weekly_articles'' \<and> status r = ''warn'')
      \<longleftrightarrow> \<not> path_exists w (DATA_DIR @ [''weekly-top-articles.json''])
          \<or> (\<exists>data. json_load w (DATA_DIR @ [''weekly-top-articles.json'']) = Inr data
                    \<and> days_count_of data < 3))
 \<and> ((\<exists>r. check_weekly_articles w = Inr r \<and> name r = ''data_weekly_articles'' \<and> status r = ''fail'')
      \<longleftrightarrow> path_exists w (DATA_DIR @ [''weekly-top-articles.json''])
          \<and> (\<exists>msg. json_load w (DATA_DIR @ [''weekly-top-articles.json''])
                      = Inl (JSONDecodeError msg)))
 \<and> ((\<exists>e. check_weekly_articles w = Inl e)
      \<longleftrightarrow> path_exists w (DATA_DIR @ [''weekly-top-articles.json''])
          \<and> (\<exists>e. json_load w (DATA_DIR @ [''weekly-top-articles.json'']) = Inl e
                   \<and> \<not> is_JSONDecodeError e))"
proof -
  have e: "is_JSONDecodeError e \<longleftrightarrow> (\<exists>msg. e = JSONDecodeError msg)" for e
    by (cases e) simp_all
  show ?thesis
    by (cases "json_load w (DATA_DIR @ [''weekly-top-articles.json''])")
       (auto simp: check_weekly_articles_def Let_def e)
qed

text \<open>
  Whenever the data runner returns, its second result is that of the weekly check, with
  the same three cases.
\<close>

lemma weekly_articles_status:
  assumes "audit_data w = Inr rs"
  shows "\<exists>news weekly backups. rs = [news, weekly, backups]
         \<and> name weekly = ''data_weekly_articles''
         \<and> (status weekly = ''pass'' \<longleftrightarrow>
              path_exists w (DATA_DIR @ [''weekly-top-articles.json''])
              \<and> (\<exists>data. json_load w (DATA_DIR @ [''weekly-top-articles.json'']) = Inr data
                        \<and> 3 \<le> days_count_of data))
         \<and> (status weekly = ''warn'' \<longleftrightarrow>
              \<not> path_exists w (DATA_DIR @ [''weekly-top-articles.json''])
              \<or> (\<exists>data. json_load w (DATA_DIR @ [''weekly-top-articles.json'']) = Inr data
                        \<and> days_count_of data < 3))
         \<and> (status weekly = ''fail'' \<longleftrightarrow>
              path_exists w (DATA_DIR @ [''weekly-top-articles.json''])
              \<and> (\<exists>msg. json_load w (DATA_DIR @ [''weekly-top-articles.json''])
                          = Inl (JSONDecodeError msg)))"
proof -
  from assms obtain news weekly where
    n: "check_latest_news w = Inr news" and wk: "check_weekly_articles w = Inr weekly"
    and rs: "rs = [news, weekly, check_backups w]"
    by (auto simp: audit_data_def and_then_Inr)
  have e: "is_JSONDecodeError e \<longleftrightarrow> (\<exists>msg. e = JSONDecodeError msg)" for e
    by (cases e) simp_all
  from wk have "name weekly = ''data_weekly_articles''"
    by (auto simp: check_weekly_articles_def Let_def split: if_splits sum.splits)
  moreover from wk have "status weekly = ''pass'' \<longleftrightarrow>
              path_exists w (DATA_DIR @ [''weekly-top-articles.json''])
              \<and> (\<exists>data. json_load w (DATA_DIR @ [''weekly-top-articles.json'']) = Inr data
                        \<and> 3 \<le> days_count_of data)"
    by (auto simp: check_weekly_articles_def Let_def split: if_splits sum.splits)
  moreover from wk have "status weekly = ''warn'' \<longleftrightarrow>
              \<not> path_exists w (DATA_DIR @ [''weekly-top-articles.json''])
              \<or> (\<exists>data. json_load w (DATA_DIR @ [''weekly-top-articles.json'']) = Inr data
                        \<and> days_count_of data < 3)"
    by (auto simp: check_weekly_articles_def Let_def split: if_splits sum.splits)
  moreover from wk have "status weekly = ''fail'' \<longleftrightarrow>
              path_exists w (DATA_DIR @ [''weekly-top-articles.json''])
              \<and> (\<exists>msg. json_load w (DATA_DIR @ [''weekly-top-articles.json''])
                          = Inl (JSONDecodeError msg))"
    by (auto simp: check_weekly_articles_def Let_def e split: if_splits sum.splits)
  ultimately show ?thesis using rs by blast
qed

lemma weekly_articles_examples:
  "(\<exists>news weekly backups.
      audit_data (data_world (Inr news_ok) (Inr (PList [PNone, PNone]))) = Inr [news, weekly, backups]
      \<and> status weekly = ''warn'')
 \<and> (\<exists>news weekly backups.
      audit_data (data_world (Inr news_ok) (Inr (PList [PNone, PNone, PNone]))) = Inr [news, weekly, backups]
      \<and> status weekly = ''pass'')
 \<and> (\<exists>news weekly backups.
      audit_data empty_project = Inr [news, weekly, backups] \<and> status weekly = ''warn'')"
proof (intro conjI)
  let ?W = "data_world (Inr news_ok) (Inr (PList [PNone, PNone]))"
  have "\<not> isl (audit_data ?W)" by code_simp
  then obtain rs where rs: "audit_data ?W = Inr rs" using obtain_Inr by blast
  have j: "json_load ?W (DATA_DIR @ [''weekly-top-articles.json'']) = Inr (PList [PNone, PNone])"
    by code_simp
  from weekly_articles_status [OF rs] j rs
  show "\<exists>news weekly backups. audit_data ?W = Inr [news, weekly, backups] \<and> status weekly = ''warn''"
    by fastforce
next
  let ?W = "data_world (Inr news_ok) (Inr (PList [PNone, PNone, PNone]))"
  have "\<not> isl (audit_data ?W)" by code_simp
  then obtain rs where rs: "audit_data ?W = Inr rs" using obtain_Inr by blast
  have j: "json_load ?W (DATA_DIR @ [''weekly-top-articles.json'']) = Inr (PList [PNone, PNone, PNone])"
    by code_simp
  have e: "path_exists ?W (DATA_DIR @ [''weekly-top-articles.json''])" by code_simp
  from weekly_articles_status [OF rs] j e rs
  show "\<exists>news weekly backups. audit_data ?W = Inr [news, weekly, backups] \<and> status weekly = ''pass''"
    by fastforce
next
  have "\<not> isl (audit_data empty_project)" by code_simp
  then obtain rs where rs: "audit_data empty_project = Inr rs" using obtain_Inr by blast
  have e: "\<not> path_exists empty_project (DATA_DIR @ [''weekly-top-articles.json''])" by code_simp
  from weekly_articles_status [OF rs] e rs
  show "\<exists>news weekly backups. audit_data empty_project = Inr [news, weekly, backups]
          \<and> status weekly = ''warn''"
    by fastforce
qed

text \<open>
  Claim C4 says that the data check reports pass for the weekly articles exactly when the
  file exists, parses and has a day count of at least 3, and fail when the file exists and
  is invalid JSON. The weekly check is the second of the runner: with a weekly file of
  exactly three entries and a news file that holds the JSON list \<^verbatim>\<open>[]\<close>, the news check
  raises \<^verbatim>\<open>AttributeError\<close> first and no pass is reported; and a weekly file that is not
  UTF-8 makes \<^verbatim>\<open>json.load\<close> raise \<^verbatim>\<open>UnicodeDecodeError\<close>, which the handler for
  \<^verbatim>\<open>JSONDecodeError\<close> does not catch, so the runner raises and no fail is reported.
\<close>

theorem weekly_check_lost_when_runner_raises:
  "path_exists (data_world (Inr (PList [])) (Inr (PList [PNone, PNone, PNone]))) weekly_file
 \<and> json_load (data_world (Inr (PList [])) (Inr (PList [PNone, PNone, PNone]))) weekly_file
       = Inr (PList [PNone, PNone, PNone])
 \<and> days_count_of (PList [PNone, PNone, PNone]) = 3
 \<and> audit_data (data_world (Inr (PList [])) (Inr (PList [PNone, PNone, PNone])))
       = Inl (AttributeError (sq @ ''list'' @ sq @ '' object has no attribute '' @ sq @ ''get'' @ sq))
 \<and> path_exists (data_world (Inr news_ok) (Inl undecodable)) weekly_file
 \<and> audit_data (data_world (Inr news_ok) (Inl undecodable)) = Inl undecodable"
  by code_simp

subsection \<open>The quality check of the latest content file\<close>




subsection \<open>The security runner\<close>

lemma security_parts:
  assumes "audit_security a w = Inr rs"
  obtains env gi cors where
    "check_env_file a w = Inr env" "check_gitignore a w = Inr gi" "check_cors a w = Inr cors"
    "rs = check_code_scan a w # env @ gi @ cors"
  using assms by (auto simp: audit_security_def Let_def and_then_Inr)

lemma check_code_scan_facts:
  "name (check_code_scan a w) = ''security_code_scan''"
  "status (check_code_scan a w) \<noteq> ''fail''"
  by (simp_all add: check_code_scan_def Let_def)

lemma check_env_file_facts:
  assumes "check_env_file a w = Inr rs"
  shows "list_all (\<lambda>r. name r \<noteq> ''security_gitignore'' \<and> status r \<noteq> ''fail'') rs"
    and "length rs = (if path_exists w (base_dir a @ [''.env'']) then 2 else 1)"
  using assms by (auto simp: check_env_file_def Let_def and_then_Inr split: if_splits)

lemma check_cors_facts:
  assumes "check_cors a w = Inr rs"
  shows "list_all (\<lambda>r. name r \<noteq> ''security_gitignore'' \<and> status r \<noteq> ''fail'') rs"
    and "length rs = (if path_exists w (base_dir a @ [''zapier-webhook-server.cjs'']) then 1 else 0)"
  using assms by (auto simp: check_cors_def Let_def and_then_Inr split: if_splits)

lemma check_gitignore_facts:
  assumes "check_gitignore a w = Inr rs"
  shows "if path_exists w (base_dir a @ [''.gitignore''])
         then \<exists>body. read_text w (base_dir a @ [''.gitignore'']) = Inr body
                \<and> rs = [new_result w ''security_gitignore''
                           (if str_in ''.env'' body then ''pass'' else ''fail'')
                           (''.env in .gitignore: '' @ show_bool (str_in ''.env'' body)) None]
         else rs = []"
  using assms by (auto simp: check_gitignore_def Let_def and_then_Inr split: if_splits)

text \<open>
  Claim C7 as stated: when the ignore file exists, its result is pass if the file excludes
  the secrets file and fail if it does not. It fails for an ignore file with the single
  line \<^verbatim>\<open>.env.example\<close>, which does not exclude \<^verbatim>\<open>.env\<close> and yet gives pass.
\<close>

theorem substring_test_is_not_exclusion:
  "\<not> (\<forall>a w rs. audit_security a w = Inr rs \<and> path_exists w (base_dir a @ [''.gitignore'']) \<longrightarrow>
         (\<exists>body g. read_text w (base_dir a @ [''.gitignore'']) = Inr body
            \<and> filter (\<lambda>r. name r = ''security_gitignore'') rs = [g]
            \<and> status g = (if git_excludes body ''.env'' then ''pass'' else ''fail'')))"
proof
  let ?W = "gitignore_world ''.env.example''"
  assume c: "\<forall>a w rs. audit_security a w = Inr rs \<and> path_exists w (base_dir a @ [''.gitignore'']) \<longrightarrow>
         (\<exists>body g. read_text w (base_dir a @ [''.gitignore'']) = Inr body
            \<and> filter (\<lambda>r. name r = ''security_gitignore'') rs = [g]
            \<and> status g = (if git_excludes body ''.env'' then ''pass'' else ''fail''))"
  have "\<not> isl (audit_security default_auditor ?W)" by code_simp
  then obtain rs where rs: "audit_security default_auditor ?W = Inr rs"
    using obtain_Inr by blast
  have e: "path_exists ?W (base_dir default_auditor @ [''.gitignore''])" by code_simp
  have r: "read_text ?W (base_dir default_auditor @ [''.gitignore'']) = Inr ''.env.example''"
    by code_simp
  have n: "\<not> git_excludes ''.env.example'' ''.env''" by code_simp
  have s: "(case audit_security default_auditor ?W of
              Inr rs \<Rightarrow> map status (filter (\<lambda>r. name r = ''security_gitignore'') rs)
            | Inl e \<Rightarrow> []) = [''pass'']"
    by code_simp
  from c rs e obtain body g where
    b: "read_text ?W (base_dir default_auditor @ [''.gitignore'']) = Inr body"
    and f: "filter (\<lambda>r. name r = ''security_gitignore'') rs = [g]"
    and st: "status g = (if git_excludes body ''.env'' then ''pass'' else ''fail'')"
    by blast
  from b r have "body = ''.env.example''" by simp
  with st n have "status g = ''fail''" by simp
  moreover from s rs f have "status g = ''pass''" by simp
  ultimately show False by simp
qed

text \<open>
  The test differs from exclusion in both directions: \<^verbatim>\<open>.*\<close> excludes the secrets file and
  gives fail, \<^verbatim>\<open>!.env\<close> does not exclude it and gives pass.
\<close>

lemma substring_test_examples:
  "git_excludes ''.*'' ''.env''
 \<and> (case audit_security default_auditor (gitignore_world ''.*'') of
       Inr rs \<Rightarrow> map status (filter (\<lambda>r. name r = ''security_gitignore'') rs)
     | Inl e \<Rightarrow> []) = [''fail'']
 \<and> \<not> git_excludes ''!.env'' ''.env''
 \<and> (case audit_security default_auditor (gitignore_world ''!.env'') of
       Inr rs \<Rightarrow> map status (filter (\<lambda>r. name r = ''security_gitignore'') rs)
     | Inl e \<Rightarrow> []) = [''pass'']"
  by code_simp

text \<open>
  Claim C7, amended. Whenever the security runner returns: a result with status fail is the
  ignore file check; every other result is pass or warn; and when the ignore file exists
  there is exactly one ignore file result, pass if the text of the file contains the
  substring \<^verbatim>\<open>.env\<close> and fail if it does not.
\<close>

theorem only_gitignore_check_fails:
  assumes "audit_security a w = Inr rs"
  shows "(\<forall>r\<in>set rs. status r = ''fail'' \<longrightarrow> name r = ''security_gitignore'')
       \<and> (\<forall>r\<in>set rs. name r \<noteq> ''security_gitignore'' \<longrightarrow> status r \<in> {''pass'', ''warn''})
       \<and> (path_exists w (base_dir a @ [''.gitignore'']) \<longrightarrow>
            (\<exists>body g. read_text w (base_dir a @ [''.gitignore'']) = Inr body
               \<and> filter (\<lambda>r. name r = ''security_gitignore'') rs = [g]
               \<and> status g = (if str_in ''.env'' body then ''pass'' else ''fail'')))"
proof -
  from assms obtain env gi cors where
    e: "check_env_file a w = Inr env" and g: "check_gitignore a w = Inr gi"
    and c: "check_cors a w = Inr cors" and rs: "rs = check_code_scan a w # env @ gi @ cors"
    by (rule security_parts)
  note ef = check_env_file_facts(1) [OF e] and cf = check_cors_facts(1) [OF c]
    and gf = check_gitignore_facts [OF g] and sf = check_code_scan_facts [of a w]
  have gn: "\<forall>r\<in>set gi. name r = ''security_gitignore''"
    using gf by (auto split: if_splits)
  have v: "\<forall>r\<in>set rs. valid_status (status r)"
    using audit_security_valid [OF assms] by (simp add: list_all_iff)
  have 1: "\<forall>r\<in>set rs. status r = ''fail'' \<longrightarrow> name r = ''security_gitignore''"
    using ef cf gn sf unfolding rs by (auto simp: list_all_iff)
  have 2: "\<forall>r\<in>set rs. name r \<noteq> ''security_gitignore'' \<longrightarrow> status r \<in> {''pass'', ''warn''}"
  proof (intro ballI impI)
    fix r assume r: "r \<in> set rs" and n: "name r \<noteq> ''security_gitignore''"
    from r n gn have "r = check_code_scan a w \<or> r \<in> set env \<or> r \<in> set cors"
      unfolding rs by auto
    then show "status r \<in> {''pass'', ''warn''}"
    proof (elim disjE)
      assume "r = check_code_scan a w"
      then show ?thesis by (simp add: check_code_scan_def Let_def)
    next
      assume "r \<in> set env"
      with e show ?thesis
        by (auto simp: check_env_file_def Let_def and_then_Inr split: if_splits)
    next
      assume "r \<in> set cors"
      with c show ?thesis
        by (auto simp: check_cors_def Let_def and_then_Inr split: if_splits)
    qed
  qed
  have 3: "path_exists w (base_dir a @ [''.gitignore'']) \<longrightarrow>
            (\<exists>body g. read_text w (base_dir a @ [''.gitignore'']) = Inr body
               \<and> filter (\<lambda>r. name r = ''security_gitignore'') rs = [g]
               \<and> status g = (if str_in ''.env'' body then ''pass'' else ''fail''))"
  proof
    assume ex: "path_exists w (base_dir a @ [''.gitignore''])"
    with gf obtain body where t: "read_text w (base_dir a @ [''.gitignore'']) = Inr body"
      and gi: "gi = [new_result w ''security_gitignore''
                           (if str_in ''.env'' body then ''pass'' else ''fail'')
                           (''.env in .gitignore: '' @ show_bool (str_in ''.env'' body)) None]"
      by auto
    have fe: "filter (\<lambda>r. name r = ''security_gitignore'') env = []"
      using ef by (auto simp: list_all_iff filter_empty_conv)
    have fc: "filter (\<lambda>r. name r = ''security_gitignore'') cors = []"
      using cf by (auto simp: list_all_iff filter_empty_conv)
    have "filter (\<lambda>r. name r = ''security_gitignore'') rs = gi"
      unfolding rs using fe fc sf gn by (simp add: gi)
    with t gi show "\<exists>body g. read_text w (base_dir a @ [''.gitignore'']) = Inr body
               \<and> filter (\<lambda>r. name r = ''security_gitignore'') rs = [g]
               \<and> status g = (if str_in ''.env'' body then ''pass'' else ''fail'')"
      by simp
  qed
  from 1 2 3 show ?thesis by blast
qed
theorem only_gitignore_check_fails_witness:
  "(\<exists>rs g. audit_security default_auditor (gitignore_world ''node_modules'') = Inr rs
      \<and> filter (\<lambda>r. name r = ''security_gitignore'') rs = [g] \<and> status g = ''fail'')
 \<and> (\<exists>rs g. audit_security default_auditor (gitignore_world ''node_modules .env'') = Inr rs
      \<and> filter (\<lambda>r. name r = ''security_gitignore'') rs = [g] \<and> status g = ''pass'')"
proof (intro conjI)
  let ?W = "gitignore_world ''node_modules''"
  have "\<not> isl (audit_security default_auditor ?W)" by code_simp
  then obtain rs where rs: "audit_security default_auditor ?W = Inr rs"
    using obtain_Inr by blast
  have e: "path_exists ?W (base_dir default_auditor @ [''.gitignore''])" by code_simp
  have r: "read_text ?W (base_dir default_auditor @ [''.gitignore'']) = Inr ''node_modules''"
    by code_simp
  have s: "\<not> str_in ''.env'' ''node_modules''" by code_simp
  from only_gitignore_check_fails [OF rs] e r s rs
  show "\<exists>rs g. audit_security default_auditor ?W = Inr rs
      \<and> filter (\<lambda>r. name r = ''security_gitignore'') rs = [g] \<and> status g = ''fail''"
    by fastforce
next
  let ?W = "gitignore_world ''node_modules .env''"
  have "\<not> isl (audit_security default_auditor ?W)" by code_simp
  then obtain rs where rs: "audit_security default_auditor ?W = Inr rs"
    using obtain_Inr by blast
  have e: "path_exists ?W (base_dir default_auditor @ [''.gitignore''])" by code_simp
  have r: "read_text ?W (base_dir default_auditor @ [''.gitignore'']) = Inr ''node_modules .env''"
    by code_simp
  have s: "str_in ''.env'' ''node_modules .env''" by code_simp
  from only_gitignore_check_fails [OF rs] e r s rs
  show "\<exists>rs g. audit_security default_auditor ?W = Inr rs
      \<and> filter (\<lambda>r. name r = ''security_gitignore'') rs = [g] \<and> status g = ''pass''"
    by fastforce
qed

text \<open>
  Claim C10. When the ignore file is absent the security runner reports no result for it;
  the number of its results is 2, plus one for each of the secrets file, the ignore file and
  the server source that exists.
\<close>

theorem no_gitignore_no_result:
  assumes "audit_security a w = Inr rs"
  shows "(\<not> path_exists w (base_dir a @ [''.gitignore'']) \<longrightarrow>
            filter (\<lambda>r. name r = ''security_gitignore'') rs = [])
       \<and> length rs = 1 + (if path_exists w (base_dir a @ [''.env'']) then 2 else 1)
                      + (if path_exists w (base_dir a @ [''.gitignore'']) then 1 else 0)
                      + (if path_exists w (base_dir a @ [''zapier-webhook-server.cjs'']) then 1 else 0)"
proof -
  from assms obtain env gi cors where
    e: "check_env_file a w = Inr env" and g: "check_gitignore a w = Inr gi"
    and c: "check_cors a w = Inr cors" and rs: "rs = check_code_scan a w # env @ gi @ cors"
    by (rule security_parts)
  note ef = check_env_file_facts [OF e] and cf = check_cors_facts [OF c]
    and gf = check_gitignore_facts [OF g] and sf = check_code_scan_facts [of a w]
  have lg: "length gi = (if path_exists w (base_dir a @ [''.gitignore'']) then 1 else 0)"
    using gf by (auto split: if_splits)
  have fe: "filter (\<lambda>r. name r = ''security_gitignore'') env = []"
    using ef(1) by (auto simp: list_all_iff filter_empty_conv)
  have fc: "filter (\<lambda>r. name r = ''security_gitignore'') cors = []"
    using cf(1) by (auto simp: list_all_iff filter_empty_conv)
  have "\<not> path_exists w (base_dir a @ [''.gitignore'']) \<longrightarrow>
            filter (\<lambda>r. name r = ''security_gitignore'') rs = []"
    using gf fe fc sf unfolding rs by simp
  moreover have "length rs = 1 + (if path_exists w (base_dir a @ [''.env'']) then 2 else 1)
                      + (if path_exists w (base_dir a @ [''.gitignore'']) then 1 else 0)
                      + (if path_exists w (base_dir a @ [''zapier-webhook-server.cjs'']) then 1 else 0)"
    unfolding rs using ef(2) cf(2) lg by simp
  ultimately show ?thesis by blast
qed
theorem no_gitignore_no_result_witness:
  "(\<exists>rs. audit_security default_auditor empty_project = Inr rs
      \<and> filter (\<lambda>r. name r = ''security_gitignore'') rs = [] \<and> length rs = 2)
 \<and> (\<exists>rs. audit_security default_auditor (gitignore_world ''.env'') = Inr rs \<and> length rs = 4)"
proof (intro conjI)
  have "\<not> isl (audit_security default_auditor empty_project)" by code_simp
  then obtain rs where rs: "audit_security default_auditor empty_project = Inr rs"
    using obtain_Inr by blast
  have e: "\<not> path_exists empty_project (base_dir default_auditor @ [''.gitignore''])"
    "\<not> path_exists empty_project (base_dir default_auditor @ [''.env''])"
    "\<not> path_exists empty_project (base_dir default_auditor @ [''zapier-webhook-server.cjs''])"
    by code_simp+
  from no_gitignore_no_result [OF rs] e rs
  show "\<exists>rs. audit_security default_auditor empty_project = Inr rs
      \<and> filter (\<lambda>r. name r = ''security_gitignore'') rs = [] \<and> length rs = 2"
    by simp
next
  let ?W = "gitignore_world ''.env''"
  have "\<not> isl (audit_security default_auditor ?W)" by code_simp
  then obtain rs where rs: "audit_security default_auditor ?W = Inr rs"
    using obtain_Inr by blast
  have e: "path_exists ?W (base_dir default_auditor @ [''.gitignore''])"
    "path_exists ?W (base_dir default_auditor @ [''.env''])"
    "\<not> path_exists ?W (base_dir default_auditor @ [''zapier-webhook-server.cjs''])"
    by code_simp+
  from no_gitignore_no_result [OF rs] e rs
  show "\<exists>rs. audit_security default_auditor ?W = Inr rs \<and> length rs = 4"
    by simp
qed

subsection \<open>The structured form of a report\<close>

text \<open>
  \<^verbatim>\<open>to_dict\<close> keeps every field of a report: each entry of the dictionary is the field of
  the report, each category a list with one \<^verbatim>\<open>asdict\<close> entry per result, and the dictionary
  determines the report.

  Claim C8 speaks of the JSON text written from this dictionary and read back. That text is
  the library's: \<^verbatim>\<open>save_report\<close> calls \<^verbatim>\<open>json.dump\<close> with \<^verbatim>\<open>ensure_ascii=False\<close> on a file
  opened as UTF-8, and the write raises \<^verbatim>\<open>UnicodeEncodeError\<close> for a string with a lone
  surrogate, as the name of a file with undecodable bytes is. Text has no such code points
  here, so the written form is not part of this theory.
\<close>

lemma to_dict_entries:
  "py_item (to_dict rep) ''title'' = Some (PStr (title rep))
 \<and> py_item (to_dict rep) ''timestamp'' = Some (PStr (report_timestamp rep))
 \<and> py_item (to_dict rep) ''summary'' = Some (PDict (summary rep))
 \<and> py_item (to_dict rep) ''file_audit'' = Some (PList (map asdict (file_audit rep)))
 \<and> py_item (to_dict rep) ''endpoint_audit'' = Some (PList (map asdict (endpoint_audit rep)))
 \<and> py_item (to_dict rep) ''data_audit'' = Some (PList (map asdict (data_audit rep)))
 \<and> py_item (to_dict rep) ''content_audit'' = Some (PList (map asdict (content_audit rep)))
 \<and> py_item (to_dict rep) ''security_audit'' = Some (PList (map asdict (security_audit rep)))
 \<and> py_item (to_dict rep) ''code_audit'' = Some (PList (map asdict (code_audit rep)))
 \<and> py_item (to_dict rep) ''recommendations'' = Some (PList (map PStr (recommendations rep)))"
  by (simp add: to_dict_def)

lemma asdict_inj: "asdict r = asdict r' \<Longrightarrow> r = r'"
  by (cases r; cases r') (auto simp: asdict_def split: option.splits)

lemma to_dict_inj: "to_dict rep = to_dict rep' \<Longrightarrow> rep = rep'"
proof -
  assume a: "to_dict rep = to_dict rep'"
  have i: "inj asdict" using asdict_inj by (auto simp: inj_def)
  have m: "map asdict xs = map asdict ys \<Longrightarrow> xs = ys" for xs ys
    using i by (simp add: inj_map_eq_map)
  have p: "map PStr xs = map PStr ys \<Longrightarrow> xs = ys" for xs ys
    by (simp add: inj_map_eq_map inj_def)
  from a show ?thesis
    by (cases rep; cases rep') (auto simp: to_dict_def dest: m p)
qed


subsection \<open>The endpoint runner and error responses\<close>

text \<open>
  The runner never raises and reports one result for each endpoint, in the order of the
  mapping; the status follows what \<^verbatim>\<open>urlopen\<close> did.
\<close>

lemma probe_endpoint_status:
  "status (probe_endpoint a w (endpoint, method)) =
     (case urlopen w (server_url a @ endpoint) method of
        Inr status_code \<Rightarrow> if status_code = 200 then ''pass'' else ''warn''
      | Inl e \<Rightarrow> ''fail'')"
  by (simp add: probe_endpoint_def Let_def split: sum.split)

lemma audit_endpoints_one_result_each:
  "map name (audit_endpoints a w) = map (\<lambda>em. ''endpoint_'' @ fst em) ENDPOINTS"
  by (simp add: audit_endpoints_def probe_endpoint_def Let_def split: sum.split)
text \<open>
  Claim C2 says that every HTTP status code other than 200 gives warn with the code
  attached. For the error response 404 the library raises \<^verbatim>\<open>HTTPError\<close>, which the
  handler for \<^verbatim>\<open>URLError\<close> catches: the result is fail, its message says that the
  connection failed, and the code is only part of the error text.
\<close>

theorem http_error_response_reported_as_failure:
  "urlopen not_found_server (server_url default_auditor @ ''/status'') ''GET''
     = Inl (HTTPError 404 ''Not Found'')
 \<and> map (\<lambda>r. (name r, status r, message r, details r))
       (take 1 (audit_endpoints default_auditor not_found_server))
     = [(''endpoint_/status'', ''fail'', ''GET /status - Connection failed'',
         Some [(''error'', PStr ''HTTP Error 404: Not Found'')])]"
  by code_simp

subsection \<open>The latest news check and values that are no objects\<close>

text \<open>
  Claim C3 says that the check of the latest news never raises, whatever the shape of the
  parsed value. For a file that holds the JSON list \<^verbatim>\<open>[]\<close> the call \<^verbatim>\<open>data.get\<close> raises
  \<^verbatim>\<open>AttributeError\<close>, which the handler for \<^verbatim>\<open>JSONDecodeError\<close> does not catch: the
  data runner raises and reports nothing.
\<close>

theorem latest_news_list_raises:
  "json_load (data_world (Inr (PList [])) (Inr (PList []))) news_file = Inr (PList [])
 \<and> audit_data (data_world (Inr (PList [])) (Inr (PList [])))
     = Inl (AttributeError (sq @ ''list'' @ sq @ '' object has no attribute '' @ sq @ ''get'' @ sq))"
  by code_simp

subsection \<open>An absent and an empty content directory\<close>

text \<open>
  Claim C5 as stated: whenever the content directory is absent or empty, the content
  runner returns a single result, warn or info. It fails for a directory that exists and
  is empty, where the runner returns five results.
\<close>

theorem empty_content_dir_not_short_circuit:
  "\<not> (\<forall>w. \<not> path_exists w CONTENT_DIR \<or> iterdir w CONTENT_DIR = [] \<longrightarrow>
          (\<exists>r. audit_linkedin_content w = Inr [r] \<and> status r \<in> {''warn'', ''info''}))"
proof
  assume c: "\<forall>w. \<not> path_exists w CONTENT_DIR \<or> iterdir w CONTENT_DIR = [] \<longrightarrow>
          (\<exists>r. audit_linkedin_content w = Inr [r] \<and> status r \<in> {''warn'', ''info''})"
  have e: "iterdir empty_content_dir CONTENT_DIR = []" by code_simp
  have l: "(case audit_linkedin_content empty_content_dir of Inr rs \<Rightarrow> length rs | Inl e \<Rightarrow> 0) = 5"
    by code_simp
  from c e obtain r where "audit_linkedin_content empty_content_dir = Inr [r]" by blast
  with l show False by simp
qed

lemma glob_empty: "iterdir w d = [] \<Longrightarrow> glob w d pat = []"
  by (simp add: glob_def)
text \<open>
  Claim C5, amended. When the content directory is absent, the runner returns the single
  result \<open>content_dir\<close> with status warn. When it exists and is empty, the runner returns
  five results with status info, the four counts per content type and the count of
  metadata files, and no result for the latest file.
\<close>

theorem absent_or_empty_content_dir:
  "(\<not> path_exists w CONTENT_DIR \<longrightarrow>
      (\<exists>r. audit_linkedin_content w = Inr [r] \<and> name r = ''content_dir'' \<and> status r = ''warn''))
 \<and> (path_exists w CONTENT_DIR \<and> iterdir w CONTENT_DIR = [] \<longrightarrow>
      (\<exists>rs. audit_linkedin_content w = Inr rs
         \<and> map (\<lambda>r. (name r, status r)) rs =
             [(''content_weeklyRoundup'', ''info''), (''content_insightPost'', ''info''),
              (''content_trendAnalysis'', ''info''), (''content_longFormArticle'', ''info''),
              (''content_metadata'', ''info'')]))"
  by (simp add: audit_linkedin_content_def check_content_quality_def glob_empty and_then_def
                CONTENT_TYPES_def count_content_type_def check_metadata_def Let_def)

theorem absent_or_empty_content_dir_witness:
  "(\<exists>r. audit_linkedin_content empty_project = Inr [r] \<and> name r = ''content_dir''
      \<and> status r = ''warn'')
 \<and> (\<exists>rs. audit_linkedin_content empty_content_dir = Inr rs
      \<and> map (\<lambda>r. (name r, status r)) rs =
             [(''content_weeklyRoundup'', ''info''), (''content_insightPost'', ''info''),
              (''content_trendAnalysis'', ''info''), (''content_longFormArticle'', ''info''),
              (''content_metadata'', ''info'')])"
proof -
  have a: "\<not> path_exists empty_project CONTENT_DIR" by code_simp
  have b: "path_exists empty_content_dir CONTENT_DIR" "iterdir empty_content_dir CONTENT_DIR = []"
    by code_simp+
  from absent_or_empty_content_dir [of empty_project] a
       absent_or_empty_content_dir [of empty_content_dir] b
  show ?thesis by blast
qed

end
